theory Spec2Isabelle
  imports Main
begin

section \<open>Billing: the model's save hook and the billing routes\<close>

text \<open>
  Source: the \<^verbatim>\<open>billingSchema\<close> of \<^verbatim>\<open>server/models/Billing.js\<close> and the handlers of
  \<^verbatim>\<open>server/routes/billing.js\<close>.

  JavaScript numbers holding money are modelled as \<^typ>\<open>int\<close> (amounts in the minor
  currency unit), so the arithmetic of the hook is exact. A \<^verbatim>\<open>Date\<close> is its time value
  in milliseconds, an \<^typ>\<open>int\<close>; the clock reading \<^verbatim>\<open>new Date()\<close> is the parameter
  \<open>now\<close> of every function that reads it.
\<close>

datatype bill_status = Pending | Partial | Paid | Overdue | Cancelled

record bill_item =
  description :: string
  quantity :: int
  unitPrice :: int
  total :: int

record bill =
  items :: "bill_item list"
  subtotal :: int
  tax :: int
  discount :: int
  totalAmount :: int
  paidAmount :: int
  balance :: int
  status :: bill_status
  dueDate :: int
  paymentDate :: "int option"

text \<open>
  \<^verbatim>\<open>billingSchema.pre('save', ...)\<close>: the three assignments in source order, then the
  \<^verbatim>\<open>if / else if / else if\<close> chain on the status. The chain has no final \<^verbatim>\<open>else\<close>:
  when no branch fires the document keeps the status it had.
\<close>

definition pre_save :: "int \<Rightarrow> bill \<Rightarrow> bill" where
  "pre_save now b =
     (let b1 = b\<lparr>subtotal := foldl (\<lambda>sum item. sum + total item) 0 (items b)\<rparr>;
          b2 = b1\<lparr>totalAmount := subtotal b1 + tax b1 - discount b1\<rparr>;
          b3 = b2\<lparr>balance := totalAmount b2 - paidAmount b2\<rparr>
      in if balance b3 \<le> 0 then b3\<lparr>status := Paid\<rparr>
         else if paidAmount b3 > 0 then b3\<lparr>status := Partial\<rparr>
         else if now > dueDate b3 then b3\<lparr>status := Overdue\<rparr>
         else b3)"

text \<open>
  \<^verbatim>\<open>POST /api/billing\<close>: \<^verbatim>\<open>items.map(item => ({...item, total: item.quantity * item.unitPrice}))\<close>.
\<close>

definition calculatedItems :: "bill_item list \<Rightarrow> bill_item list" where
  "calculatedItems its = map (\<lambda>item. item\<lparr>total := quantity item * unitPrice item\<rparr>) its"

text \<open>
  The request body of \<^verbatim>\<open>POST /api/billing\<close>, restricted to the fields of the bill that the
  hook reads or writes. A field the body may omit is an option; the schema supplies the
  defaults \<^verbatim>\<open>tax: 0\<close>, \<^verbatim>\<open>discount: 0\<close>, \<^verbatim>\<open>paidAmount: 0\<close>, \<^verbatim>\<open>balance: 0\<close> and
  \<^verbatim>\<open>status: 'pending'\<close>. \<^verbatim>\<open>subtotal\<close> and \<^verbatim>\<open>totalAmount\<close> are \<^verbatim>\<open>required\<close> by the schema, so
  a body that is saved carries them; the hook overwrites both. Mongoose validates the
  document before it runs the hook, so the validators see the body's values and never
  the hook's: \<open>billing_create\<close> is the document that is stored when validation lets the
  body through, and \<open>schemaValid\<close> below states the validators.
\<close>

record billing_body =
  body_items :: "bill_item list"
  body_subtotal :: int
  body_tax :: "int option"
  body_discount :: "int option"
  body_totalAmount :: int
  body_paidAmount :: "int option"
  body_balance :: "int option"
  body_status :: "bill_status option"
  body_dueDate :: int

definition orDefault :: "'a option \<Rightarrow> 'a \<Rightarrow> 'a" where
  "orDefault v d = (case v of None \<Rightarrow> d | Some x \<Rightarrow> x)"

definition billing_create :: "int \<Rightarrow> billing_body \<Rightarrow> bill" where
  "billing_create now body =
     pre_save now
       \<lparr>items = calculatedItems (body_items body),
        subtotal = body_subtotal body,
        tax = orDefault (body_tax body) 0,
        discount = orDefault (body_discount body) 0,
        totalAmount = body_totalAmount body,
        paidAmount = orDefault (body_paidAmount body) 0,
        balance = orDefault (body_balance body) 0,
        status = orDefault (body_status body) Pending,
        dueDate = body_dueDate body,
        paymentDate = None\<rparr>"

text \<open>
  \<^verbatim>\<open>PUT /api/billing/:id\<close>: \<^verbatim>\<open>updateData = {...req.body}\<close>, plus \<^verbatim>\<open>paymentDate = new Date()\<close>
  when \<^verbatim>\<open>paidAmount && paidAmount > 0\<close>, handed to \<^verbatim>\<open>Billing.findByIdAndUpdate\<close>. That call
  writes each supplied field into the stored document; it is a query, not a
  \<^verbatim>\<open>save()\<close>, so the save hook does not run. \<open>billing_update\<close> is its effect on the
  document found.
\<close>

record billing_update_body =
  upd_items :: "bill_item list option"
  upd_tax :: "int option"
  upd_discount :: "int option"
  upd_paidAmount :: "int option"
  upd_status :: "bill_status option"
  upd_dueDate :: "int option"

definition billing_update :: "int \<Rightarrow> billing_update_body \<Rightarrow> bill \<Rightarrow> bill" where
  "billing_update now upd b =
     b\<lparr>items := orDefault (upd_items upd) (items b),
       tax := orDefault (upd_tax upd) (tax b),
       discount := orDefault (upd_discount upd) (discount b),
       paidAmount := orDefault (upd_paidAmount upd) (paidAmount b),
       status := orDefault (upd_status upd) (status b),
       dueDate := orDefault (upd_dueDate upd) (dueDate b),
       paymentDate := (case upd_paidAmount upd of
                         Some p \<Rightarrow> if p > 0 then Some now else paymentDate b
                       | None \<Rightarrow> paymentDate b)\<rparr>"

text \<open>What the specification calls a consistent bill.\<close>

definition derived_consistent :: "bill \<Rightarrow> bool" where
  "derived_consistent b \<longleftrightarrow>
     subtotal b = sum_list (map total (items b)) \<and>
     totalAmount b = subtotal b + tax b - discount b \<and>
     balance b = totalAmount b - paidAmount b"

text \<open>
  The validators that \<^verbatim>\<open>billingSchema\<close> declares on the modelled fields: every item has a
  description, a quantity of at least 1 (\<^verbatim>\<open>Quantity must be at least 1\<close>), a unit price and
  a total of at least 0; \<^verbatim>\<open>subtotal\<close>, \<^verbatim>\<open>tax\<close>, \<^verbatim>\<open>discount\<close>, \<^verbatim>\<open>totalAmount\<close>
  (\<^verbatim>\<open>min: [0, 'Total amount cannot be negative']\<close>) and \<^verbatim>\<open>paidAmount\<close> are at least 0.
\<close>

definition itemValid :: "bill_item \<Rightarrow> bool" where
  "itemValid item \<longleftrightarrow>
     description item \<noteq> [] \<and> 1 \<le> quantity item \<and> 0 \<le> unitPrice item \<and> 0 \<le> total item"

definition schemaValid :: "bill \<Rightarrow> bool" where
  "schemaValid b \<longleftrightarrow>
     list_all itemValid (items b) \<and> 0 \<le> subtotal b \<and> 0 \<le> tax b \<and> 0 \<le> discount b \<and>
     0 \<le> totalAmount b \<and> 0 \<le> paidAmount b"

subsection \<open>Concrete bills\<close>

definition consultation :: bill_item where
  "consultation = \<lparr>description = ''Consultation Fee'', quantity = 1, unitPrice = 100, total = 0\<rparr>"

definition overdiscounted_bill :: bill where
  "overdiscounted_bill =
     \<lparr>items = calculatedItems [consultation], subtotal = 0, tax = 0, discount = 250,
      totalAmount = 0, paidAmount = 0, balance = 0, status = Pending, dueDate = 1000,
      paymentDate = None\<rparr>"

definition overdiscounted_body :: billing_body where
  "overdiscounted_body =
     \<lparr>body_items = [consultation], body_subtotal = 0, body_tax = None,
      body_discount = Some 250, body_totalAmount = 0, body_paidAmount = None,
      body_balance = None, body_status = None, body_dueDate = 1000\<rparr>"

definition stale_overdue_bill :: bill where
  "stale_overdue_bill =
     \<lparr>items = calculatedItems [consultation], subtotal = 100, tax = 0, discount = 0,
      totalAmount = 100, paidAmount = 0, balance = 100, status = Overdue, dueDate = 1000,
      paymentDate = None\<rparr>"

definition cancelled_unpaid_bill :: bill where
  "cancelled_unpaid_bill =
     \<lparr>items = calculatedItems [consultation], subtotal = 100, tax = 0, discount = 0,
      totalAmount = 100, paidAmount = 0, balance = 100, status = Cancelled, dueDate = 1000,
      paymentDate = None\<rparr>"

definition cancelled_settled_bill :: bill where
  "cancelled_settled_bill = cancelled_unpaid_bill\<lparr>paidAmount := 100\<rparr>"

definition invoice_body :: billing_body where
  "invoice_body =
     \<lparr>body_items = [consultation], body_subtotal = 100, body_tax = None,
      body_discount = None, body_totalAmount = 100, body_paidAmount = None,
      body_balance = None, body_status = None, body_dueDate = 1000\<rparr>"

definition full_payment :: billing_update_body where
  "full_payment =
     \<lparr>upd_items = None, upd_tax = None, upd_discount = None, upd_paidAmount = Some 100,
      upd_status = None, upd_dueDate = None\<rparr>"

section \<open>Appointments: dates, weekly availability and the appointment routes\<close>

text \<open>
  Source: \<^verbatim>\<open>server/models/Appointment.js\<close>, \<^verbatim>\<open>server/models/Doctor.js\<close>,
  \<^verbatim>\<open>server/routes/appointments.js\<close> and \<^verbatim>\<open>getAvailableTimeSlots\<close> of
  \<^verbatim>\<open>client/src/pages/BookAppointment.jsx\<close>.
\<close>

subsection \<open>JavaScript dates\<close>

text \<open>
  A \<^verbatim>\<open>Date\<close> is \<open>Some\<close> of its time value in milliseconds, or \<open>None\<close> for
  \<^verbatim>\<open>Invalid Date\<close> (time value NaN). The relational operators on dates compare the time
  values, and every comparison with NaN is false.
\<close>

type_synonym js_date = "int option"

definition date_lt :: "js_date \<Rightarrow> js_date \<Rightarrow> bool" where
  "date_lt a b = (case a of None \<Rightarrow> False | Some x \<Rightarrow> (case b of None \<Rightarrow> False | Some y \<Rightarrow> x < y))"

definition date_le :: "js_date \<Rightarrow> js_date \<Rightarrow> bool" where
  "date_le a b = (case a of None \<Rightarrow> False | Some x \<Rightarrow> (case b of None \<Rightarrow> False | Some y \<Rightarrow> x \<le> y))"

definition date_ge :: "js_date \<Rightarrow> js_date \<Rightarrow> bool" where
  "date_ge a b = (case a of None \<Rightarrow> False | Some x \<Rightarrow> (case b of None \<Rightarrow> False | Some y \<Rightarrow> x \<ge> y))"

definition msPerMinute :: int where
  "msPerMinute = 60000"

definition msPerDay :: int where
  "msPerDay = 86400000"

text \<open>
  The source builds its dates with \<^verbatim>\<open>new Date(`${date}T${time}`)\<close> on the server and
  \<^verbatim>\<open>new Date(`2000-01-01 ${time}`)\<close> in the client, for a calendar date and a string that
  is meant to be a time of day. How the time string is read is the business of the
  platform's date parser, which accepts many shapes (\<^verbatim>\<open>09:00\<close>, \<^verbatim>\<open>09:00:30\<close>, \<^verbatim>\<open>24:00\<close>,
  and in the second form also \<^verbatim>\<open>9:00\<close>) and rejects the others. The parser is therefore
  a parameter of every function that builds a date: \<open>parse time\<close> is the number of
  milliseconds by which the resulting date lies after the local midnight of the
  calendar date, or \<open>None\<close> where the result is \<^verbatim>\<open>Invalid Date\<close>. The calendar date
  is its number of days since 1970-01-01, and the date built is a local wall-clock time
  (in a zone whose offset does not change within the day). \<^verbatim>\<open>2000-01-01\<close> is day 10957.
\<close>

type_synonym time_parser = "string \<Rightarrow> int option"

definition newDate :: "time_parser \<Rightarrow> int \<Rightarrow> string \<Rightarrow> js_date" where
  "newDate parse day time = map_option (\<lambda>ms. day * msPerDay + ms) (parse time)"

definition day2000 :: int where
  "day2000 = 10957"

text \<open>
  The value of the parser on the strings \<^verbatim>\<open>HH:MM\<close> that the doctor schema and the seed
  data use (\<^verbatim>\<open>'09:00'\<close>, \<^verbatim>\<open>'17:00'\<close>): hours and minutes after midnight. \<open>clockHHMM\<close>
  serves to evaluate the handlers at requests whose times have this shape; it says
  nothing about the strings of other shapes, for which it returns \<open>None\<close>.
\<close>

definition digit :: "char \<Rightarrow> nat option" where
  "digit c = (let n = (of_char c :: nat) in if 48 \<le> n \<and> n \<le> 57 then Some (n - 48) else None)"

definition twoDigits :: "char \<Rightarrow> char \<Rightarrow> nat option" where
  "twoDigits a b =
     (case digit a of None \<Rightarrow> None
      | Some x \<Rightarrow> (case digit b of None \<Rightarrow> None | Some y \<Rightarrow> Some (10 * x + y)))"

definition clockHHMM :: time_parser where
  "clockHHMM s =
     (case s of
        [h1, h2, c, m1, m2] \<Rightarrow>
          (if c = CHR '':'' then
             (case twoDigits h1 h2 of None \<Rightarrow> None
              | Some h \<Rightarrow>
                  (case twoDigits m1 m2 of None \<Rightarrow> None
                   | Some m \<Rightarrow>
                       if h < 24 \<and> m < 60 then Some (int (60 * h + m) * msPerMinute) else None))
           else None)
      | _ \<Rightarrow> None)"

text \<open>
  \<^verbatim>\<open>date.toLocaleDateString('en-US', { weekday: w })\<close>, on a local wall-clock time. An
  invalid date gives the string \<^verbatim>\<open>Invalid Date\<close> before the options are read. Otherwise
  the option \<^verbatim>\<open>weekday\<close> must be one of \<^verbatim>\<open>narrow\<close>, \<^verbatim>\<open>short\<close> and \<^verbatim>\<open>long\<close>; any other
  value makes the call throw a \<^verbatim>\<open>RangeError\<close>. 1970-01-01 was a Thursday.
\<close>

datatype js_exn = RangeError

definition weekdayNames :: "string list" where
  "weekdayNames =
     [''Sunday'', ''Monday'', ''Tuesday'', ''Wednesday'', ''Thursday'', ''Friday'', ''Saturday'']"

definition weekdayLong :: "int \<Rightarrow> string" where
  "weekdayLong t = weekdayNames ! nat ((t div msPerDay + 4) mod 7)"

definition toLocaleDateString :: "string \<Rightarrow> js_date \<Rightarrow> js_exn + string" where
  "toLocaleDateString weekday d =
     (case d of
        None \<Rightarrow> Inr ''Invalid Date''
      | Some t \<Rightarrow>
          if weekday = ''long'' then Inr (weekdayLong t)
          else if weekday = ''short'' then Inr (take 3 (weekdayLong t))
          else if weekday = ''narrow'' then Inr (take 1 (weekdayLong t))
          else Inl RangeError)"

definition lowerChar :: "char \<Rightarrow> char" where
  "lowerChar c =
     (case map_of (zip ''ABCDEFGHIJKLMNOPQRSTUVWXYZ'' ''abcdefghijklmnopqrstuvwxyz'') c of
        None \<Rightarrow> c
      | Some l \<Rightarrow> l)"

definition toLowerCase :: "string \<Rightarrow> string" where
  "toLowerCase s = map lowerChar s"

subsection \<open>Object ids\<close>

text \<open>
  The request validator \<^verbatim>\<open>isMongoId()\<close> accepts exactly the strings of 24 hexadecimal
  digits. Every such string is cast to an \<^verbatim>\<open>ObjectId\<close> by Mongoose; which other strings
  are cast depends on the release of the library, so that is a field of the environment
  below (\<open>castsObjectId\<close>). A query with an id that is not cast throws a \<^verbatim>\<open>CastError\<close>.
\<close>

definition isHexDigit :: "char \<Rightarrow> bool" where
  "isHexDigit c \<longleftrightarrow> c \<in> set ''0123456789abcdefABCDEF''"

definition isMongoId :: "string \<Rightarrow> bool" where
  "isMongoId s \<longleftrightarrow> length s = 24 \<and> list_all isHexDigit s"

subsection \<open>Documents\<close>

datatype appt_status = Scheduled | Confirmed | In_progress | Completed | Appt_cancelled | No_show

datatype appt_type = Consultation | Follow_up | Emergency | Routine_checkup

datatype priority_level = Low | Medium | High | Urgent

datatype doctor_status = Active | Inactive | On_leave

datatype role = Admin | Doctor_role | Receptionist | Patient_role

text \<open>One day of \<^verbatim>\<open>doctor.availability\<close>: \<^verbatim>\<open>{ start, end, available }\<close>.\<close>

record dayAvailability =
  dayStart :: string
  dayEnd :: string
  available :: bool

text \<open>
  A doctor, with \<^verbatim>\<open>availability\<close> as the object it is: a lookup from a key to a day's
  entry, \<open>None\<close> where \<^verbatim>\<open>doctor.availability[key]\<close> is \<^verbatim>\<open>undefined\<close>.
\<close>

record doctor =
  doctorStatus :: doctor_status
  availability :: "string \<Rightarrow> dayAvailability option"

record user =
  user_id :: string
  role :: role

text \<open>
  An appointment document, with every path of \<^verbatim>\<open>appointmentSchema\<close>.
  \<open>appointmentDate\<close> is the \<^verbatim>\<open>Date\<close> that the request's string is cast to (for
  \<^verbatim>\<open>YYYY-MM-DD\<close>, midnight UTC of that day); \<open>appointmentTime\<close> is the string as sent.
\<close>

record appointment =
  appt_id :: nat
  patientId :: string
  doctorId :: string
  appointmentDate :: int
  appointmentTime :: string
  duration :: int
  apptStatus :: appt_status
  apptType :: appt_type
  reason :: string
  apptNotes :: "string option"
  symptoms :: "string list"
  priority :: priority_level
  reminderSent :: bool
  reminderDate :: "int option"
  cancellationReason :: "string option"
  cancelledBy :: "string option"
  cancelledAt :: "int option"

text \<open>
  What the handlers read besides the appointments: \<^verbatim>\<open>Doctor.findById\<close>, whether
  \<^verbatim>\<open>Patient.findById\<close> finds a document, and which strings the library casts to an
  \<^verbatim>\<open>ObjectId\<close>.
\<close>

record environment =
  doctors :: "string \<Rightarrow> doctor option"
  patients :: "string \<Rightarrow> bool"
  castsObjectId :: "string \<Rightarrow> bool"

text \<open>The appointment collection, with the counter that numbers new documents.\<close>

record appt_store =
  appts :: "appointment list"
  nextId :: nat

definition empty_store :: appt_store where
  "empty_store = \<lparr>appts = [], nextId = 0\<rparr>"

datatype failure =
    ValidationFailed
  | Forbidden
  | DoctorUnavailable
  | PatientNotFound
  | DoctorNotFound
  | PastDateTime
  | DayUnavailable
  | OutsideWorkingHours
  | SlotConflict
  | AppointmentNotFound
  | CannotCancel
  | ServerError

text \<open>
  The answers of the handlers other than success, by the status code and message sent:
  \<open>ValidationFailed\<close> is the 400 of the request validators; \<open>Forbidden\<close> a 403;
  \<open>DoctorUnavailable\<close> is \<^verbatim>\<open>Doctor not found or not available\<close>; \<open>PastDateTime\<close> is
  \<^verbatim>\<open>Appointment date and time must be in the future\<close>; \<open>DayUnavailable\<close> is
  \<^verbatim>\<open>Doctor is not available on this day\<close>; \<open>OutsideWorkingHours\<close> is
  \<^verbatim>\<open>Appointment time is outside doctor's working hours\<close>; \<open>SlotConflict\<close> is the 400 of
  an occupied time slot; \<open>ServerError\<close> is the 500 that each handler's \<^verbatim>\<open>catch\<close> sends
  for anything thrown inside its \<^verbatim>\<open>try\<close>.
\<close>

subsection \<open>Availability of a day and of a time\<close>

text \<open>
  The two tests of \<^verbatim>\<open>POST /api/appointments/check-availability\<close> on the day's entry.
  \<open>isDayAvailable\<close> is the negation of \<^verbatim>\<open>!dayAvailability || !dayAvailability.available\<close>.
  \<open>withinWorkingHours\<close> is the negation of
  \<^verbatim>\<open>appointmentTimeObj < startTime || appointmentTimeObj >= endTime\<close>, the three dates
  built on \<^verbatim>\<open>2000-01-01\<close>.
\<close>

definition isDayAvailable :: "dayAvailability option \<Rightarrow> bool" where
  "isDayAvailable dayAvailability =
     (case dayAvailability of None \<Rightarrow> False | Some d \<Rightarrow> available d)"

definition withinWorkingHours :: "time_parser \<Rightarrow> dayAvailability \<Rightarrow> string \<Rightarrow> bool" where
  "withinWorkingHours parse d appointmentTime' =
     (let appointmentTimeObj = newDate parse day2000 appointmentTime';
          startTime = newDate parse day2000 (dayStart d);
          endTime = newDate parse day2000 (dayEnd d)
      in \<not> (date_lt appointmentTimeObj startTime \<or> date_ge appointmentTimeObj endTime))"


subsection \<open>The two conflict queries\<close>

text \<open>
  \<^verbatim>\<open>Appointment.findOne({ doctorId, appointmentDate, appointmentTime, status: ... })\<close>.
  The availability check asks for a status \<^verbatim>\<open>$in: ['scheduled', 'confirmed']\<close>; the two
  booking handlers ask for a status \<^verbatim>\<open>$nin: ['cancelled', 'completed']\<close>.
\<close>

definition sameSlot :: "string \<Rightarrow> int \<Rightarrow> string \<Rightarrow> appointment \<Rightarrow> bool" where
  "sameSlot d date time a \<longleftrightarrow>
     doctorId a = d \<and> appointmentDate a = date \<and> appointmentTime a = time"

definition existingAppointment ::
    "appointment list \<Rightarrow> string \<Rightarrow> int \<Rightarrow> string \<Rightarrow> appointment option" where
  "existingAppointment as d date time =
     find (\<lambda>a. sameSlot d date time a \<and> (apptStatus a = Scheduled \<or> apptStatus a = Confirmed)) as"

definition conflictingAppointment ::
    "appointment list \<Rightarrow> string \<Rightarrow> int \<Rightarrow> string \<Rightarrow> appointment option" where
  "conflictingAppointment as d date time =
     find (\<lambda>a. sameSlot d date time a \<and>
                \<not> (apptStatus a = Appt_cancelled \<or> apptStatus a = Completed)) as"

subsection \<open>The availability check\<close>

text \<open>
  The body of \<^verbatim>\<open>POST /api/appointments/check-availability\<close>. \<open>av_appointmentDate\<close> is the
  calendar date of the \<^verbatim>\<open>YYYY-MM-DD\<close> string, in days since 1970-01-01, so the test for a
  missing date is settled by the type. \<open>now\<close> is the local wall-clock reading of
  \<^verbatim>\<open>new Date()\<close>. The query at the end compares the stored dates with the date the string
  is cast to, midnight UTC of that day.

  The route has no validator on the doctor id: \<^verbatim>\<open>Doctor.findById\<close> throws a \<^verbatim>\<open>CastError\<close>
  for an id that is not cast to an \<^verbatim>\<open>ObjectId\<close>. The handler asks for the weekday with
  \<^verbatim>\<open>{ weekday: 'lowercase' }\<close>, which throws a \<^verbatim>\<open>RangeError\<close>. Both are caught by the
  handler's \<^verbatim>\<open>catch\<close>, which answers 500.
\<close>

record availability_body =
  av_doctorId :: string
  av_appointmentDate :: int
  av_appointmentTime :: string

definition post_check_availability ::
    "time_parser \<Rightarrow> environment \<Rightarrow> int \<Rightarrow> availability_body \<Rightarrow> appointment list
      \<Rightarrow> failure + unit" where
  "post_check_availability parse env now body as =
     (if av_doctorId body = [] \<or> av_appointmentTime body = [] then Inl ValidationFailed
      else if \<not> castsObjectId env (av_doctorId body) then Inl ServerError
      else
        (case doctors env (av_doctorId body) of
           None \<Rightarrow> Inl DoctorUnavailable
         | Some doctor \<Rightarrow>
             (if doctorStatus doctor \<noteq> Active then Inl DoctorUnavailable
              else if date_le (newDate parse (av_appointmentDate body) (av_appointmentTime body))
                        (Some now)
                then Inl PastDateTime
              else
                (case toLocaleDateString ''lowercase''
                        (newDate parse (av_appointmentDate body) (av_appointmentTime body)) of
                   Inl e \<Rightarrow> Inl ServerError
                 | Inr dayOfWeek \<Rightarrow>
                     (case availability doctor dayOfWeek of
                        None \<Rightarrow> Inl DayUnavailable
                      | Some d \<Rightarrow>
                          (if \<not> available d then Inl DayUnavailable
                           else if \<not> withinWorkingHours parse d (av_appointmentTime body)
                             then Inl OutsideWorkingHours
                           else if existingAppointment as (av_doctorId body)
                                     (av_appointmentDate body * msPerDay)
                                     (av_appointmentTime body) \<noteq> None
                             then Inl SlotConflict
                           else Inr ()))))))"

subsection \<open>Creating appointments\<close>

text \<open>
  The body of the two creating requests, with every path of the schema that a body can
  set. The date is the \<^verbatim>\<open>Date\<close> its ISO string is cast to, and a field is taken at the
  type of its schema path; a field the body may omit is an option. \<open>req_status\<close> is
  whatever string the body holds, and \<open>req_symptoms\<close> is the list the body's value is
  cast to. Lengths are counted in the characters of the model's strings.
\<close>

record appointment_body =
  req_patientId :: "string option"
  req_doctorId :: string
  req_appointmentDate :: int
  req_appointmentTime :: string
  req_duration :: "int option"
  req_reason :: string
  req_status :: "string option"
  req_type :: "appt_type option"
  req_notes :: "string option"
  req_symptoms :: "string list option"
  req_priority :: "priority_level option"
  req_reminderSent :: "bool option"
  req_reminderDate :: "int option"
  req_cancellationReason :: "string option"
  req_cancelledBy :: "string option"
  req_cancelledAt :: "int option"

definition statusOfString :: "string \<Rightarrow> appt_status option" where
  "statusOfString s =
     map_of [(''scheduled'', Scheduled), (''confirmed'', Confirmed), (''in_progress'', In_progress),
             (''completed'', Completed), (''cancelled'', Appt_cancelled), (''no_show'', No_show)] s"

text \<open>
  The validators of \<^verbatim>\<open>appointmentSchema\<close> on a document about to be created, besides the
  required patient id and the enumeration of the status, which \<open>Appointment_create\<close>
  tests itself: time and reason are required, the reason has at most 500 characters,
  the duration lies between 15 and 180, the notes have at most 1000 characters, every
  symptom at most 100, the cancellation reason at most 200, and \<^verbatim>\<open>cancelledBy\<close> must be
  cast to an \<^verbatim>\<open>ObjectId\<close>.
\<close>

definition schemaAccepts :: "environment \<Rightarrow> appointment_body \<Rightarrow> bool" where
  "schemaAccepts env d \<longleftrightarrow>
     req_appointmentTime d \<noteq> [] \<and> req_reason d \<noteq> [] \<and> length (req_reason d) \<le> 500 \<and>
     (case req_duration d of None \<Rightarrow> True | Some n \<Rightarrow> 15 \<le> n \<and> n \<le> 180) \<and>
     (case req_notes d of None \<Rightarrow> True | Some n \<Rightarrow> length n \<le> 1000) \<and>
     (case req_symptoms d of None \<Rightarrow> True | Some ss \<Rightarrow> list_all (\<lambda>s. length s \<le> 100) ss) \<and>
     (case req_cancellationReason d of None \<Rightarrow> True | Some r \<Rightarrow> length r \<le> 200) \<and>
     (case req_cancelledBy d of None \<Rightarrow> True | Some u \<Rightarrow> castsObjectId env u)"

text \<open>
  \<^verbatim>\<open>Appointment.create(data)\<close>: the schema's validation, its defaults (\<^verbatim>\<open>scheduled\<close>,
  \<^verbatim>\<open>consultation\<close>, \<^verbatim>\<open>medium\<close>, a duration of 30, no reminder sent), and the insertion of
  the new document. A validation error is thrown, so the handler answers 500. The ids
  of patient and doctor have passed \<^verbatim>\<open>isMongoId()\<close> or are the user's own id when the
  handlers call this, so they are cast.
\<close>

definition Appointment_create ::
    "environment \<Rightarrow> appointment_body \<Rightarrow> appt_store \<Rightarrow> (failure + appointment) \<times> appt_store" where
  "Appointment_create env d st =
     (case req_patientId d of
        None \<Rightarrow> (Inl ServerError, st)
      | Some p \<Rightarrow>
          (case (case req_status d of None \<Rightarrow> Some Scheduled | Some s \<Rightarrow> statusOfString s) of
             None \<Rightarrow> (Inl ServerError, st)
           | Some s \<Rightarrow>
               if \<not> schemaAccepts env d then (Inl ServerError, st)
               else
                 let a = \<lparr>appt_id = nextId st, patientId = p, doctorId = req_doctorId d,
                          appointmentDate = req_appointmentDate d,
                          appointmentTime = req_appointmentTime d,
                          duration = orDefault (req_duration d) 30, apptStatus = s,
                          apptType = orDefault (req_type d) Consultation,
                          reason = req_reason d, apptNotes = req_notes d,
                          symptoms = orDefault (req_symptoms d) [],
                          priority = orDefault (req_priority d) Medium,
                          reminderSent = orDefault (req_reminderSent d) False,
                          reminderDate = req_reminderDate d,
                          cancellationReason = req_cancellationReason d,
                          cancelledBy = req_cancelledBy d, cancelledAt = req_cancelledAt d\<rparr>
                 in (Inr a, \<lparr>appts = appts st @ [a], nextId = Suc (nextId st)\<rparr>)))"

text \<open>
  \<^verbatim>\<open>POST /api/appointments/patient\<close>: the request validators (the doctor id is a Mongo id,
  time and reason are not empty), the role test, the doctor, the conflict query, then
  \<^verbatim>\<open>{...req.body, patientId, status: 'scheduled', type: ..., priority: ...}\<close> handed to
  \<^verbatim>\<open>Appointment.create\<close>. The handler reads no clock and no availability.
\<close>

definition post_patient ::
    "environment \<Rightarrow> user \<Rightarrow> appointment_body \<Rightarrow> appt_store \<Rightarrow> (failure + appointment) \<times> appt_store" where
  "post_patient env usr body st =
     (if \<not> isMongoId (req_doctorId body) then (Inl ValidationFailed, st)
      else if req_appointmentTime body = [] \<or> req_reason body = [] then (Inl ValidationFailed, st)
      else if role usr \<noteq> Patient_role then (Inl Forbidden, st)
      else case doctors env (req_doctorId body) of
        None \<Rightarrow> (Inl DoctorUnavailable, st)
      | Some doctor \<Rightarrow>
          if doctorStatus doctor \<noteq> Active then (Inl DoctorUnavailable, st)
          else if conflictingAppointment (appts st) (req_doctorId body)
                    (req_appointmentDate body) (req_appointmentTime body) \<noteq> None
            then (Inl SlotConflict, st)
          else
            Appointment_create env
              (body\<lparr>req_patientId := Some (user_id usr),
                    req_status := Some ''scheduled'',
                    req_type := Some (orDefault (req_type body) Consultation),
                    req_priority := Some (orDefault (req_priority body) Medium)\<rparr>) st)"

text \<open>
  \<^verbatim>\<open>POST /api/appointments\<close>, the staff route: the request validators (patient id and
  doctor id are Mongo ids, time and reason are not empty), the patient, the doctor (only
  its existence), the conflict query, then \<^verbatim>\<open>Appointment.create(req.body)\<close>.
\<close>

definition post_appointment ::
    "environment \<Rightarrow> appointment_body \<Rightarrow> appt_store \<Rightarrow> (failure + appointment) \<times> appt_store" where
  "post_appointment env body st =
     (if \<not> isMongoId (req_doctorId body) then (Inl ValidationFailed, st)
      else if req_appointmentTime body = [] \<or> req_reason body = [] then (Inl ValidationFailed, st)
      else case req_patientId body of
        None \<Rightarrow> (Inl ValidationFailed, st)
      | Some p \<Rightarrow>
          if \<not> isMongoId p then (Inl ValidationFailed, st)
          else if \<not> patients env p then (Inl PatientNotFound, st)
          else if doctors env (req_doctorId body) = None then (Inl DoctorNotFound, st)
          else if conflictingAppointment (appts st) (req_doctorId body)
                    (req_appointmentDate body) (req_appointmentTime body) \<noteq> None
            then (Inl SlotConflict, st)
          else Appointment_create env body st)"

subsection \<open>Updating, cancelling and deleting\<close>

text \<open>
  \<^verbatim>\<open>PUT /api/appointments/:id\<close>: \<^verbatim>\<open>Appointment.findByIdAndUpdate(id, req.body)\<close> writes
  every field the body supplies into the document with that id; the fields of the body
  modelled here are those of the slot, the status, the patient and the reason. The
  handler makes no conflict query.
\<close>

record appointment_update =
  set_patientId :: "string option"
  set_doctorId :: "string option"
  set_appointmentDate :: "int option"
  set_appointmentTime :: "string option"
  set_status :: "appt_status option"
  set_reason :: "string option"

definition replaceById :: "nat \<Rightarrow> appointment \<Rightarrow> appointment list \<Rightarrow> appointment list" where
  "replaceById i a' as = map (\<lambda>a. if appt_id a = i then a' else a) as"

definition put_appointment ::
    "nat \<Rightarrow> appointment_update \<Rightarrow> appt_store \<Rightarrow> (failure + appointment) \<times> appt_store" where
  "put_appointment i upd st =
     (case find (\<lambda>a. appt_id a = i) (appts st) of
        None \<Rightarrow> (Inl AppointmentNotFound, st)
      | Some a \<Rightarrow>
          let a' = a\<lparr>patientId := orDefault (set_patientId upd) (patientId a),
                     doctorId := orDefault (set_doctorId upd) (doctorId a),
                     appointmentDate := orDefault (set_appointmentDate upd) (appointmentDate a),
                     appointmentTime := orDefault (set_appointmentTime upd) (appointmentTime a),
                     apptStatus := orDefault (set_status upd) (apptStatus a),
                     reason := orDefault (set_reason upd) (reason a)\<rparr>
          in (Inr a', st\<lparr>appts := replaceById i a' (appts st)\<rparr>))"

text \<open>\<^verbatim>\<open>DELETE /api/appointments/:id\<close>: \<^verbatim>\<open>Appointment.findByIdAndDelete\<close>.\<close>

definition delete_appointment :: "nat \<Rightarrow> appt_store \<Rightarrow> (failure + appointment) \<times> appt_store" where
  "delete_appointment i st =
     (case find (\<lambda>a. appt_id a = i) (appts st) of
        None \<Rightarrow> (Inl AppointmentNotFound, st)
      | Some a \<Rightarrow> (Inr a, st\<lparr>appts := filter (\<lambda>x. appt_id x \<noteq> i) (appts st)\<rparr>))"

text \<open>
  \<^verbatim>\<open>PUT /api/appointments/:id/cancel\<close>. The document is loaded with its \<^verbatim>\<open>patientId\<close>
  populated from the patient collection; where no patient document has that id the
  populated field is \<^verbatim>\<open>null\<close>, and for a user of role patient the test
  \<^verbatim>\<open>appointment.patientId._id.toString() !== req.user._id.toString()\<close> then throws a
  \<^verbatim>\<open>TypeError\<close>, answered with 500. For the other roles the \<^verbatim>\<open>&&\<close> never reads the field.
\<close>

definition put_cancel ::
    "environment \<Rightarrow> int \<Rightarrow> user \<Rightarrow> nat \<Rightarrow> appt_store \<Rightarrow> (failure + appointment) \<times> appt_store" where
  "put_cancel env now usr i st =
     (case find (\<lambda>a. appt_id a = i) (appts st) of
        None \<Rightarrow> (Inl AppointmentNotFound, st)
      | Some a \<Rightarrow>
          if role usr = Patient_role \<and> \<not> patients env (patientId a) then (Inl ServerError, st)
          else if role usr = Patient_role \<and> patientId a \<noteq> user_id usr then (Inl Forbidden, st)
          else if apptStatus a = Completed \<or> apptStatus a = Appt_cancelled
            then (Inl CannotCancel, st)
          else
            let a' = a\<lparr>apptStatus := Appt_cancelled, cancelledAt := Some now,
                       cancelledBy := Some (user_id usr)\<rparr>
            in (Inr a', st\<lparr>appts := replaceById i a' (appts st)\<rparr>))"

subsection \<open>The client's list of time slots\<close>

text \<open>
  \<^verbatim>\<open>getAvailableTimeSlots(doctor, date)\<close> of the booking page. The loop
  \<^verbatim>\<open>while (start < end) { slots.push(...); start.setMinutes(start.getMinutes() + 30) }\<close>
  is \<open>slotLoop\<close> on the two time values: it returns the successive values of \<^verbatim>\<open>start\<close>
  that are pushed. The step of 30 minutes is a constant of the source. With an invalid
  \<^verbatim>\<open>start\<close> or \<^verbatim>\<open>end\<close> the test \<^verbatim>\<open>start < end\<close> is false at once.
\<close>

function slotLoop :: "int \<Rightarrow> int \<Rightarrow> int list" where
  "slotLoop start end' =
     (if start < end' then start # slotLoop (start + 30 * msPerMinute) end' else [])"
  by pat_completeness auto
termination
  by (relation "measure (\<lambda>(start, end'). nat (end' - start))") (auto simp: msPerMinute_def)

declare slotLoop.simps [simp del]

definition slotStarts :: "js_date \<Rightarrow> js_date \<Rightarrow> int list" where
  "slotStarts start end' =
     (case start of
        None \<Rightarrow> []
      | Some s \<Rightarrow> (case end' of None \<Rightarrow> [] | Some e \<Rightarrow> slotLoop s e))"

text \<open>
  The date string \<^verbatim>\<open>YYYY-MM-DD\<close> of the date picker is read by \<^verbatim>\<open>new Date(date)\<close> as
  midnight UTC and shown in the browser's time zone, \<open>tz\<close> minutes east of UTC; \<open>date\<close>
  is \<open>None\<close> for the empty string. The labels come from \<^verbatim>\<open>toLocaleTimeString\<close>, which is
  a parameter here, as the date parser is: the function maps it over the slot starts.
\<close>

definition getAvailableTimeSlots ::
    "time_parser \<Rightarrow> (int \<Rightarrow> string) \<Rightarrow> int \<Rightarrow> doctor option \<Rightarrow> int option
      \<Rightarrow> js_exn + string list" where
  "getAvailableTimeSlots parse toLocaleTimeString tz doctor date =
     (case doctor of
        None \<Rightarrow> Inr []
      | Some d \<Rightarrow>
          (case date of
             None \<Rightarrow> Inr []
           | Some day \<Rightarrow>
               (case toLocaleDateString ''long'' (Some (day * msPerDay + tz * msPerMinute)) of
                  Inl e \<Rightarrow> Inl e
                | Inr name \<Rightarrow>
                    (case availability d (toLowerCase name) of
                       None \<Rightarrow> Inr []
                     | Some a \<Rightarrow>
                         if \<not> available a then Inr []
                         else Inr (map toLocaleTimeString
                                (slotStarts (newDate parse day2000 (dayStart a))
                                            (newDate parse day2000 (dayEnd a))))))))"

subsection \<open>Runs of requests against the appointment store\<close>

datatype request =
    PostAppointment appointment_body
  | PostPatient user appointment_body
  | PutAppointment nat appointment_update
  | PutCancel int user nat
  | DeleteAppointment nat

fun handle :: "environment \<Rightarrow> request \<Rightarrow> appt_store \<Rightarrow> appt_store" where
  "handle env (PostAppointment body) st = snd (post_appointment env body st)"
| "handle env (PostPatient usr body) st = snd (post_patient env usr body st)"
| "handle env (PutAppointment i upd) st = snd (put_appointment i upd st)"
| "handle env (PutCancel now usr i) st = snd (put_cancel env now usr i st)"
| "handle env (DeleteAppointment i) st = snd (delete_appointment i st)"

fun run :: "environment \<Rightarrow> request list \<Rightarrow> appt_store \<Rightarrow> appt_store" where
  "run env [] st = st"
| "run env (r # rs) st = run env rs (handle env r st)"

fun isUpdate :: "request \<Rightarrow> bool" where
  "isUpdate (PutAppointment i upd) = True"
| "isUpdate r = False"

text \<open>
  The uniqueness invariant of the specification: among the appointments whose status is
  neither cancelled nor completed, no two have the same doctor, date and time.
\<close>

definition nonTerminal :: "appointment \<Rightarrow> bool" where
  "nonTerminal a \<longleftrightarrow> \<not> (apptStatus a = Appt_cancelled \<or> apptStatus a = Completed)"

definition slotOf :: "appointment \<Rightarrow> string \<times> int \<times> string" where
  "slotOf a = (doctorId a, appointmentDate a, appointmentTime a)"

definition noDoubleBooking :: "appt_store \<Rightarrow> bool" where
  "noDoubleBooking st \<longleftrightarrow> distinct (map slotOf (filter nonTerminal (appts st)))"

subsection \<open>A concrete hospital\<close>

definition officeHours :: dayAvailability where
  "officeHours = \<lparr>dayStart = ''09:00'', dayEnd = ''17:00'', available = True\<rparr>"

definition weekend :: dayAvailability where
  "weekend = \<lparr>dayStart = ''09:00'', dayEnd = ''13:00'', available = False\<rparr>"

definition weekly :: "string \<Rightarrow> dayAvailability option" where
  "weekly = map_of
     [(''monday'', officeHours), (''tuesday'', officeHours), (''wednesday'', officeHours),
      (''thursday'', officeHours), (''friday'', officeHours), (''saturday'', weekend),
      (''sunday'', weekend)]"

definition drJohnson :: doctor where
  "drJohnson = \<lparr>doctorStatus = Active, availability = weekly\<rparr>"

text \<open>Ids of 24 hexadecimal digits: a doctor, two patient documents, three users.\<close>

definition doc1 :: string where
  "doc1 = ''64d0000000000000000000d1''"

definition pat1 :: string where
  "pat1 = ''64d0000000000000000000a1''"

definition pat2 :: string where
  "pat2 = ''64d0000000000000000000a2''"

definition user1 :: string where
  "user1 = ''64d0000000000000000000b1''"



definition hospital :: environment where
  "hospital =
     \<lparr>doctors = (\<lambda>d. if d = doc1 then Some drJohnson else None),
      patients = (\<lambda>p. p = pat1 \<or> p = pat2),
      castsObjectId = isMongoId\<rparr>"




text \<open>2030-01-07, a Monday, is day 21921; its midnight UTC is the stored date.\<close>

definition monday2030 :: int where
  "monday2030 = 21921"

definition tenOClock :: appointment_body where
  "tenOClock =
     \<lparr>req_patientId = Some pat1, req_doctorId = doc1,
      req_appointmentDate = monday2030 * msPerDay, req_appointmentTime = ''10:00'',
      req_duration = None, req_reason = ''Annual checkup'', req_status = None,
      req_type = None, req_notes = None, req_symptoms = None, req_priority = None,
      req_reminderSent = None, req_reminderDate = None, req_cancellationReason = None,
      req_cancelledBy = None, req_cancelledAt = None\<rparr>"

definition elevenOClock :: appointment_body where
  "elevenOClock = tenOClock\<lparr>req_patientId := Some pat2, req_appointmentTime := ''11:00''\<rparr>"

definition moveToTen :: appointment_update where
  "moveToTen =
     \<lparr>set_patientId = None, set_doctorId = None, set_appointmentDate = None,
      set_appointmentTime = Some ''10:00'', set_status = None, set_reason = None\<rparr>"




definition mondayAtTen :: availability_body where
  "mondayAtTen =
     \<lparr>av_doctorId = doc1, av_appointmentDate = monday2030, av_appointmentTime = ''10:00''\<rparr>"

definition mondayBeforeFive :: availability_body where
  "mondayBeforeFive = mondayAtTen\<lparr>av_appointmentTime := ''16:59''\<rparr>"

definition firstBooking :: appointment where
  "firstBooking =
     \<lparr>appt_id = 0, patientId = user1, doctorId = doc1,
      appointmentDate = monday2030 * msPerDay, appointmentTime = ''10:00'', duration = 30,
      apptStatus = Scheduled, apptType = Consultation, reason = ''Annual checkup'',
      apptNotes = None, symptoms = [], priority = Medium, reminderSent = False,
      reminderDate = None, cancellationReason = None, cancelledBy = None,
      cancelledAt = None\<rparr>"





definition staffAtTen :: appointment where
  "staffAtTen = firstBooking\<lparr>patientId := pat1\<rparr>"

definition staffAtEleven :: appointment where
  "staffAtEleven =
     firstBooking\<lparr>appt_id := 1, patientId := pat2, appointmentTime := ''11:00''\<rparr>"


section \<open>Properties of the billing hook\<close>

lemma foldl_total: "foldl (\<lambda>sum item. sum + total item) a its = a + sum_list (map total its)"
  by (induction its arbitrary: a) simp_all

lemma sum_calculatedItems:
  "sum_list (map total (calculatedItems its)) = (\<Sum>item\<leftarrow>its. quantity item * unitPrice item)"
  by (simp add: calculatedItems_def comp_def)

lemma pre_save_subtotal: "subtotal (pre_save now b) = sum_list (map total (items b))"
  by (simp add: pre_save_def Let_def foldl_total)

lemma pre_save_totalAmount:
  "totalAmount (pre_save now b) = sum_list (map total (items b)) + tax b - discount b"
  by (simp add: pre_save_def Let_def foldl_total)

lemma pre_save_balance:
  "balance (pre_save now b) = sum_list (map total (items b)) + tax b - discount b - paidAmount b"
  by (simp add: pre_save_def Let_def foldl_total)

lemma pre_save_inputs:
  "items (pre_save now b) = items b \<and> tax (pre_save now b) = tax b \<and>
   discount (pre_save now b) = discount b \<and> paidAmount (pre_save now b) = paidAmount b \<and>
   dueDate (pre_save now b) = dueDate b"
  by (simp add: pre_save_def Let_def)

lemma pre_save_status:
  "status (pre_save now b) =
     (if sum_list (map total (items b)) + tax b - discount b - paidAmount b \<le> 0 then Paid
      else if paidAmount b > 0 then Partial
      else if now > dueDate b then Overdue
      else status b)"
  by (simp add: pre_save_def Let_def foldl_total)

lemma pre_save_derived_fields:
  "subtotal (pre_save now b) = sum_list (map total (items b)) \<and>
   subtotal (pre_save now (b\<lparr>items := calculatedItems its\<rparr>))
     = (\<Sum>item\<leftarrow>its. quantity item * unitPrice item) \<and>
   totalAmount (pre_save now b) = subtotal (pre_save now b) + tax b - discount b \<and>
   balance (pre_save now b) = totalAmount (pre_save now b) - paidAmount b \<and>
   items (pre_save now b) = items b \<and> tax (pre_save now b) = tax b \<and>
   discount (pre_save now b) = discount b \<and> paidAmount (pre_save now b) = paidAmount b"
  by (simp add: pre_save_subtotal pre_save_totalAmount pre_save_balance pre_save_inputs
      sum_calculatedItems)

text \<open>
  C1 at a concrete bill: one item of 100 is billed with a discount of 250, the body
  carrying the subtotal 0 and the total 0 that the schema requires. The body passes the
  schema's validators. The hook then computes the subtotal 100 and stores the total
  100 + 0 - 250 = -150, where the specification expects the clamped value 0; the stored
  document no longer satisfies the schema's own validator on \<open>totalAmount\<close>.
\<close>

theorem pre_save_total_not_clamped:
  "schemaValid overdiscounted_bill \<and>
   billing_create 0 overdiscounted_body = pre_save 0 overdiscounted_bill \<and>
   subtotal (pre_save 0 overdiscounted_bill) = 100 \<and>
   totalAmount (pre_save 0 overdiscounted_bill) = - 150 \<and>
   max 0 (subtotal (pre_save 0 overdiscounted_bill) + tax overdiscounted_bill
            - discount overdiscounted_bill) = 0 \<and>
   \<not> schemaValid (pre_save 0 overdiscounted_bill)"
  by (simp add: schemaValid_def itemValid_def billing_create_def overdiscounted_body_def
      orDefault_def pre_save_totalAmount pre_save_subtotal pre_save_inputs
      overdiscounted_bill_def calculatedItems_def consultation_def)

text \<open>
  C2, as the specification states it, at a bill stored as overdue whose due date has been
  moved into the future: nothing is paid, the balance is positive and the clock is before
  the due date, so none of the first three rules fires; the specification expects
  \<open>pending\<close>,
  the hook leaves \<open>overdue\<close>.
\<close>

theorem pre_save_fallthrough_keeps_status:
  "balance (pre_save 0 stale_overdue_bill) = 100 \<and>
   paidAmount (pre_save 0 stale_overdue_bill) = 0 \<and>
   dueDate (pre_save 0 stale_overdue_bill) = 1000 \<and>
   status (pre_save 0 stale_overdue_bill) = Overdue"
  by (simp add: pre_save_balance pre_save_inputs pre_save_status stale_overdue_bill_def
      calculatedItems_def consultation_def)

text \<open>
  C2, amended: after the derived fields are recomputed the status is set by the first
  matching rule: balance at most 0 gives \<open>paid\<close>; else a positive paid amount gives
  \<open>partial\<close>; else a clock reading past the due date gives \<open>overdue\<close>; otherwise the
  status is left as it was before the recomputation. For a bill that is being created
  that earlier status is the one in the request body, or \<open>pending\<close>, the schema's
  default, when the body sets none.
\<close>

theorem pre_save_status_rules:
  "status (pre_save now b) =
     (if balance (pre_save now b) \<le> 0 then Paid
      else if paidAmount b > 0 then Partial
      else if now > dueDate b then Overdue
      else status b) \<and>
   status (billing_create now body) =
     (if balance (billing_create now body) \<le> 0 then Paid
      else if orDefault (body_paidAmount body) 0 > 0 then Partial
      else if now > body_dueDate body then Overdue
      else orDefault (body_status body) Pending)"
  by (simp add: billing_create_def pre_save_status pre_save_balance)

text \<open>
  C3, as the specification states it, at a cancelled bill that is paid in full: the
  balance is 0, the first rule fires and the hook overwrites \<open>cancelled\<close> with \<open>paid\<close>.
\<close>

theorem pre_save_overwrites_cancelled:
  "status cancelled_settled_bill = Cancelled \<and>
   status (pre_save 0 cancelled_settled_bill) = Paid"
  by (simp add: pre_save_status cancelled_settled_bill_def cancelled_unpaid_bill_def
      calculatedItems_def consultation_def)

text \<open>
  C3, amended: the hook has no test for \<open>cancelled\<close>. A cancelled bill is still cancelled
  after the recomputation exactly when none of the three rules fires, that is when its
  balance is positive, nothing is paid and the clock is not past the due date; in every
  other case the status is overwritten by the rule that fires.
\<close>

theorem pre_save_cancelled_iff:
  assumes "status b = Cancelled"
  shows "(status (pre_save now b) = Cancelled \<longleftrightarrow>
            0 < balance (pre_save now b) \<and> paidAmount b \<le> 0 \<and> now \<le> dueDate b) \<and>
         (status (pre_save now b) = Cancelled \<or> status (pre_save now b) = Paid \<or>
          status (pre_save now b) = Partial \<or> status (pre_save now b) = Overdue)"
  using assms by (simp add: pre_save_status pre_save_balance)

theorem pre_save_cancelled_iff_witness:
  "status cancelled_unpaid_bill = Cancelled \<and>
   status (pre_save 0 cancelled_unpaid_bill) = Cancelled \<and>
   0 < balance (pre_save 0 cancelled_unpaid_bill) \<and>
   paidAmount cancelled_unpaid_bill \<le> 0 \<and> 0 \<le> dueDate cancelled_unpaid_bill"
proof -
  have c: "status cancelled_unpaid_bill = Cancelled"
    by (simp add: cancelled_unpaid_bill_def)
  have "0 < balance (pre_save 0 cancelled_unpaid_bill)"
    by (simp add: pre_save_balance cancelled_unpaid_bill_def calculatedItems_def
        consultation_def)
  moreover have "paidAmount cancelled_unpaid_bill \<le> 0" "0 \<le> dueDate cancelled_unpaid_bill"
    by (simp_all add: cancelled_unpaid_bill_def)
  ultimately show ?thesis
    using c pre_save_cancelled_iff [OF c, of 0] by simp
qed

lemma billing_create_consistent: "derived_consistent (billing_create now body)"
  by (simp add: derived_consistent_def billing_create_def pre_save_subtotal
      pre_save_totalAmount pre_save_balance pre_save_inputs)

text \<open>
  C4 at a concrete run: a bill for one item of 100 is created, and the update route then
  records a payment of 100. Creation goes through the save hook and leaves the derived
  fields consistent. The update writes \<open>paidAmount\<close> with \<open>findByIdAndUpdate\<close>, which
  does not run the hook: the stored balance is still 100 against a total of 100 and a
  paid amount of 100, and the status is still \<open>pending\<close>.
\<close>

theorem billing_update_skips_recompute:
  "derived_consistent (billing_create 0 invoice_body) \<and>
   totalAmount (billing_update 5 full_payment (billing_create 0 invoice_body)) = 100 \<and>
   paidAmount (billing_update 5 full_payment (billing_create 0 invoice_body)) = 100 \<and>
   balance (billing_update 5 full_payment (billing_create 0 invoice_body)) = 100 \<and>
   status (billing_update 5 full_payment (billing_create 0 invoice_body)) = Pending \<and>
   \<not> derived_consistent (billing_update 5 full_payment (billing_create 0 invoice_body))"
  by (simp add: derived_consistent_def billing_update_def billing_create_def
      pre_save_subtotal pre_save_totalAmount pre_save_balance pre_save_inputs pre_save_status
      invoice_body_def full_payment_def orDefault_def calculatedItems_def consultation_def)


section \<open>Properties of the appointment store\<close>

lemma conflictingAppointment_None:
  "conflictingAppointment as d date time = None \<longleftrightarrow>
     \<not> (\<exists>a\<in>set as. sameSlot d date time a \<and> nonTerminal a)"
  by (auto simp: conflictingAppointment_def nonTerminal_def find_None_iff)

lemma distinct_slots_append:
  assumes "distinct (map slotOf (filter nonTerminal as))"
    and "conflictingAppointment as d date time = None"
    and "doctorId a = d" "appointmentDate a = date" "appointmentTime a = time"
  shows "distinct (map slotOf (filter nonTerminal (as @ [a])))"
proof -
  from assms(2-) have "\<forall>x\<in>set as. nonTerminal x \<longrightarrow> slotOf x \<noteq> slotOf a"
    by (auto simp: conflictingAppointment_None sameSlot_def slotOf_def)
  with assms(1) show ?thesis by auto
qed

lemma distinct_slots_retire:
  assumes "distinct (map slotOf (filter nonTerminal as))"
    and "\<And>x. x \<in> set as \<Longrightarrow> g x = x \<or> \<not> nonTerminal (g x)"
  shows "distinct (map slotOf (filter nonTerminal (map g as)))"
  using assms
proof (induction as)
  case Nil
  then show ?case by simp
next
  case (Cons x xs)
  have rest: "distinct (map slotOf (filter nonTerminal (map g xs)))"
    using Cons by (auto split: if_splits)
  show ?case
  proof (cases "nonTerminal (g x)")
    case False
    with rest show ?thesis by simp
  next
    case True
    then have gx: "g x = x" using Cons.prems(2) [of x] by auto
    have "slotOf x \<notin> slotOf ` set (filter nonTerminal xs)"
      using Cons.prems(1) True gx by auto
    moreover have "set (filter nonTerminal (map g xs)) \<subseteq> set (filter nonTerminal xs)"
      using Cons.prems(2) by force
    ultimately have "slotOf x \<notin> slotOf ` set (filter nonTerminal (map g xs))"
      by blast
    with rest True gx show ?thesis by simp
  qed
qed

lemma distinct_slots_filter:
  assumes "distinct (map slotOf (filter nonTerminal as))"
  shows "distinct (map slotOf (filter (\<lambda>x. Q x \<and> nonTerminal x) as))"
  using assms by (induction as) (auto split: if_splits)

lemma Appointment_create_appts:
  "appts (snd (Appointment_create env d st)) = appts st \<or>
   (\<exists>a. appts (snd (Appointment_create env d st)) = appts st @ [a] \<and>
        doctorId a = req_doctorId d \<and> appointmentDate a = req_appointmentDate d \<and>
        appointmentTime a = req_appointmentTime d)"
  by (auto simp: Appointment_create_def Let_def split: option.splits)

lemma post_appointment_keeps:
  assumes "noDoubleBooking st"
  shows "noDoubleBooking (snd (post_appointment env body st))"
proof (cases "snd (post_appointment env body st) = st")
  case True
  with assms show ?thesis by simp
next
  case False
  then have c: "conflictingAppointment (appts st) (req_doctorId body)
                  (req_appointmentDate body) (req_appointmentTime body) = None"
    and e: "snd (post_appointment env body st) = snd (Appointment_create env body st)"
    by (auto simp: post_appointment_def split: if_splits option.splits)
  from Appointment_create_appts [of env body st] c assms show ?thesis
    unfolding e noDoubleBooking_def
    by (auto intro: distinct_slots_append simp del: filter_append map_append)
qed

lemma post_patient_keeps:
  assumes "noDoubleBooking st"
  shows "noDoubleBooking (snd (post_patient env usr body st))"
proof (cases "snd (post_patient env usr body st) = st")
  case True
  with assms show ?thesis by simp
next
  case False
  let ?d = "body\<lparr>req_patientId := Some (user_id usr), req_status := Some ''scheduled'',
                  req_type := Some (orDefault (req_type body) Consultation),
                  req_priority := Some (orDefault (req_priority body) Medium)\<rparr>"
  from False have c: "conflictingAppointment (appts st) (req_doctorId body)
                  (req_appointmentDate body) (req_appointmentTime body) = None"
    and e: "snd (post_patient env usr body st) = snd (Appointment_create env ?d st)"
    by (auto simp: post_patient_def split: if_splits option.splits)
  from Appointment_create_appts [of env ?d st] c assms show ?thesis
    unfolding e noDoubleBooking_def
    by (auto intro: distinct_slots_append simp del: filter_append map_append)
qed

lemma put_cancel_keeps:
  assumes "noDoubleBooking st"
  shows "noDoubleBooking (snd (put_cancel env now usr i st))"
proof (cases "snd (put_cancel env now usr i st) = st")
  case True
  with assms show ?thesis by simp
next
  case False
  then obtain a' where e: "appts (snd (put_cancel env now usr i st)) = replaceById i a' (appts st)"
    and t: "\<not> nonTerminal a'"
    by (auto simp: put_cancel_def Let_def nonTerminal_def split: if_splits option.splits)
  show ?thesis
    unfolding noDoubleBooking_def e replaceById_def
    using assms t by (intro distinct_slots_retire) (auto simp: noDoubleBooking_def)
qed

lemma delete_appointment_keeps:
  assumes "noDoubleBooking st"
  shows "noDoubleBooking (snd (delete_appointment i st))"
  using assms
  by (auto simp: delete_appointment_def noDoubleBooking_def distinct_slots_filter
      split: option.splits)

lemma handle_keeps:
  assumes "noDoubleBooking st" "\<not> isUpdate r"
  shows "noDoubleBooking (handle env r st)"
  using assms
  by (cases r)
    (simp_all add: post_appointment_keeps post_patient_keeps put_cancel_keeps
      delete_appointment_keeps)

text \<open>
  The handlers that create, cancel and delete keep the uniqueness invariant: the two
  creating handlers through the conflict query they make before they insert.
\<close>

lemma create_cancel_delete_keep_invariant:
  assumes "noDoubleBooking st" and "\<forall>r\<in>set rs. \<not> isUpdate r"
  shows "noDoubleBooking (run env rs st)"
  using assms
proof (induction rs arbitrary: st)
  case Nil
  then show ?case by simp
next
  case (Cons r rs)
  then show ?case by (simp add: handle_keeps)
qed

text \<open>
  C5 at a run of three staff requests. Two appointments are created for the same doctor
  and day, at 10:00 and at 11:00; the store has no double booking, and a third creation
  at 10:00 is refused by the conflict query of the creating route. The update route is
  then asked to move the second appointment to 10:00. It makes no conflict query, and
  the store ends with two scheduled appointments in one slot.
\<close>

theorem update_double_books:
  "run hospital [PostAppointment tenOClock, PostAppointment elevenOClock] empty_store
     = \<lparr>appts = [staffAtTen, staffAtEleven], nextId = 2\<rparr> \<and>
   noDoubleBooking \<lparr>appts = [staffAtTen, staffAtEleven], nextId = 2\<rparr> \<and>
   post_appointment hospital (elevenOClock\<lparr>req_appointmentTime := ''10:00''\<rparr>)
       \<lparr>appts = [staffAtTen, staffAtEleven], nextId = 2\<rparr>
     = (Inl SlotConflict, \<lparr>appts = [staffAtTen, staffAtEleven], nextId = 2\<rparr>) \<and>
   put_appointment 1 moveToTen \<lparr>appts = [staffAtTen, staffAtEleven], nextId = 2\<rparr>
     = (Inr (staffAtEleven\<lparr>appointmentTime := ''10:00''\<rparr>),
        \<lparr>appts = [staffAtTen, staffAtEleven\<lparr>appointmentTime := ''10:00''\<rparr>], nextId = 2\<rparr>) \<and>
   slotOf (staffAtEleven\<lparr>appointmentTime := ''10:00''\<rparr>) = slotOf staffAtTen \<and>
   apptStatus staffAtTen = Scheduled \<and>
   apptStatus (staffAtEleven\<lparr>appointmentTime := ''10:00''\<rparr>) = Scheduled \<and>
   \<not> noDoubleBooking
       (run hospital [PostAppointment tenOClock, PostAppointment elevenOClock,
                      PutAppointment 1 moveToTen] empty_store)"
  by code_simp

section \<open>Properties of the booking handlers\<close>








subsection \<open>The conflict queries\<close>









section \<open>The working-hours window and the slot list\<close>

text \<open>
  What the window test and the slot loop compute once they are reached: the test holds
  iff start \<open>\<le>\<close> time \<open><\<close> end on the parsed times, and the loop returns the grid
  points start + 30 minutes times k that lie before the end, in order.
\<close>

lemma withinWorkingHours_iff:
  assumes "parse (dayStart d) = Some s" "parse (dayEnd d) = Some e" "parse time = Some t"
  shows "withinWorkingHours parse d time \<longleftrightarrow> s \<le> t \<and> t < e"
  using assms
  by (auto simp: withinWorkingHours_def Let_def newDate_def date_lt_def date_ge_def)

lemma slotLoop_grid:
  "slotLoop a b = map (\<lambda>k. a + 1800000 * int k) [0..<nat ((b - a + 1799999) div 1800000)]"
proof (induction a b rule: slotLoop.induct)
  case (1 start end')
  show ?case
  proof (cases "start < end'")
    case False
    then have "(end' - start + 1799999) div 1800000 \<le> 0" by linarith
    then show ?thesis using False by (simp add: slotLoop.simps [of start end'])
  next
    case True
    let ?n = "nat ((end' - (start + 1800000) + 1799999) div 1800000)"
    have n: "nat ((end' - start + 1799999) div 1800000) = Suc ?n"
      using True by linarith
    have "slotLoop start end' = start # slotLoop (start + 1800000) end'"
      using True by (simp add: slotLoop.simps [of start end'] msPerMinute_def)
    also have "slotLoop (start + 1800000) end'
                 = map (\<lambda>k. start + 1800000 + 1800000 * int k) [0..<?n]"
      using 1 True by (simp add: msPerMinute_def)
    finally show ?thesis
      unfolding n by (simp add: map_upt_Suc del: upt_Suc)
  qed
qed

lemma sunday_key:
  "toLowerCase (weekdayLong (monday2030 * msPerDay - 300 * msPerMinute)) = ''sunday''"
  by (simp add: toLowerCase_def lowerChar_def weekdayLong_def weekdayNames_def monday2030_def
      msPerDay_def msPerMinute_def)

lemma west_of_utc_no_slots:
  "getAvailableTimeSlots parse label (- 300) (Some drJohnson) (Some monday2030) = Inr []"
  by (simp add: getAvailableTimeSlots_def toLocaleDateString_def sunday_key drJohnson_def
      weekly_def weekend_def)

lemma hospital_never_available:
  "post_check_availability parse hospital now q as \<noteq> Inr ()"
proof (cases "newDate parse (av_appointmentDate q) (av_appointmentTime q)")
  case None
  then show ?thesis
    by (simp add: post_check_availability_def toLocaleDateString_def hospital_def
        drJohnson_def weekly_def split: option.splits)
next
  case (Some t)
  then show ?thesis
    by (simp add: post_check_availability_def toLocaleDateString_def split: option.splits)
qed

text \<open>
  C8 at concrete requests. For the doctor who works Monday from 09:00 to 17:00, the
  availability of Monday 2030-01-07 at 16:59 is asked well before that day. The day is
  available and the window test on 16:59 holds, so the specification expects the slot to
  be bookable; the handler throws on the weekday lookup that precedes the window test
  and answers with a server error, and for no request at all does it answer that a slot
  of this hospital is available. In the client, the slots of that Monday are the 16
  starts from minute 540 (09:00) to minute 990 (16:30) in a browser at the offset of
  UTC; five hours west of UTC the same Monday is looked up as Sunday and no slot is
  listed.
\<close>

theorem window_test_never_reached:
  "isDayAvailable (weekly ''monday'') \<and>
   withinWorkingHours clockHHMM officeHours ''16:59'' \<and>
   \<not> withinWorkingHours clockHHMM officeHours ''17:00'' \<and>
   post_check_availability clockHHMM hospital 0 mondayBeforeFive [] = Inl ServerError \<and>
   (\<forall>now q as. post_check_availability parse hospital now q as \<noteq> Inr ()) \<and>
   getAvailableTimeSlots clockHHMM label 0 (Some drJohnson) (Some monday2030)
     = Inr (map label (map (\<lambda>m. day2000 * msPerDay + m * msPerMinute)
         [540, 570, 600, 630, 660, 690, 720, 750, 780, 810, 840, 870, 900, 930, 960, 990])) \<and>
   getAvailableTimeSlots parse label (- 300) (Some drJohnson) (Some monday2030) = Inr []"
proof -
  have "isDayAvailable (weekly ''monday'') \<and>
   withinWorkingHours clockHHMM officeHours ''16:59'' \<and>
   \<not> withinWorkingHours clockHHMM officeHours ''17:00'' \<and>
   post_check_availability clockHHMM hospital 0 mondayBeforeFive [] = Inl ServerError"
    by code_simp
  moreover have "slotStarts (newDate clockHHMM day2000 ''09:00'') (newDate clockHHMM day2000 ''17:00'')
      = map (\<lambda>m. day2000 * msPerDay + m * msPerMinute)
         [540, 570, 600, 630, 660, 690, 720, 750, 780, 810, 840, 870, 900, 930, 960, 990]"
    by code_simp
  then have "getAvailableTimeSlots clockHHMM label 0 (Some drJohnson) (Some monday2030)
     = Inr (map label (map (\<lambda>m. day2000 * msPerDay + m * msPerMinute)
         [540, 570, 600, 630, 660, 690, 720, 750, 780, 810, 840, 870, 900, 930, 960, 990]))"
    by (simp add: getAvailableTimeSlots_def toLocaleDateString_def toLowerCase_def
        lowerChar_def weekdayLong_def weekdayNames_def monday2030_def msPerDay_def
        drJohnson_def weekly_def officeHours_def)
  ultimately show ?thesis
    using hospital_never_available west_of_utc_no_slots by blast
qed

text \<open>
  C9 at a concrete request: the availability of an active doctor is asked for Monday
  2030-01-07 at 10:00, long before that day. The handler asks \<^verbatim>\<open>toLocaleDateString\<close> for
  the weekday \<^verbatim>\<open>'lowercase'\<close>, which is not a value of that option: the call throws a
  \<^verbatim>\<open>RangeError\<close> and the handler answers with a server error instead of looking the day
  up. With the option \<^verbatim>\<open>'long'\<close> and \<^verbatim>\<open>toLowerCase\<close>, as the client and the doctors
  route do it, the key is \<^verbatim>\<open>monday\<close> and the day is available. The client reads the
  date string as midnight UTC and asks for the weekday in the browser's zone: five hours
  west of UTC the same Monday is looked up under \<^verbatim>\<open>sunday\<close>, and no slot is offered.
\<close>

theorem check_availability_weekday_throws:
  "toLocaleDateString ''lowercase'' (newDate clockHHMM monday2030 ''10:00'') = Inl RangeError \<and>
   post_check_availability clockHHMM hospital 0 mondayAtTen [] = Inl ServerError \<and>
   toLocaleDateString ''long'' (newDate clockHHMM monday2030 ''10:00'') = Inr ''Monday'' \<and>
   toLowerCase ''Monday'' = ''monday'' \<and>
   isDayAvailable (availability drJohnson ''monday'') \<and>
   toLowerCase (weekdayLong (monday2030 * msPerDay - 300 * msPerMinute)) = ''sunday'' \<and>
   getAvailableTimeSlots clockHHMM label (- 300) (Some drJohnson) (Some monday2030) = Inr []"
proof -
  have "toLocaleDateString ''lowercase'' (newDate clockHHMM monday2030 ''10:00'') = Inl RangeError \<and>
   post_check_availability clockHHMM hospital 0 mondayAtTen [] = Inl ServerError \<and>
   toLocaleDateString ''long'' (newDate clockHHMM monday2030 ''10:00'') = Inr ''Monday'' \<and>
   toLowerCase ''Monday'' = ''monday'' \<and>
   isDayAvailable (availability drJohnson ''monday'')"
    by code_simp
  then show ?thesis
    using sunday_key west_of_utc_no_slots [of clockHHMM label] by simp
qed

section \<open>Identity and status of a self-booked appointment\<close>




end
